theory Spec2Isabelle
  imports Complex_Main "HOL-Library.Finite_Map" "HOL-Library.Word"
begin

section \<open>Exceptions (error.h)\<close>

text \<open>
  The exception classes of \<^verbatim>\<open>error.h\<close>, with the two library classes that
  \<^verbatim>\<open>Error\<close> derives from. \<open>bases\<close> lists the direct public base classes of
  each class, in the order of the class head.
\<close>

datatype error_class =
    StdException
  | BoostException
  | Error
  | IOError
  | InvalidArgument
  | LogicError
  | IllegalOperation
  | SettingsError
  | ValidationError
  | RedefinitionError
  | DuplicateArgumentError
  | UndefinedElement
  | CycleError

fun bases :: "error_class \<Rightarrow> error_class list" where
  "bases StdException = []"
| "bases BoostException = []"
| "bases Error = [StdException, BoostException]"
| "bases IOError = [Error]"
| "bases InvalidArgument = [Error]"
| "bases LogicError = [Error]"
| "bases IllegalOperation = [Error]"
| "bases SettingsError = [Error]"
| "bases ValidationError = [Error]"
| "bases RedefinitionError = [ValidationError]"
| "bases DuplicateArgumentError = [ValidationError]"
| "bases UndefinedElement = [ValidationError]"
| "bases CycleError = [ValidationError]"

text \<open>The length of the longest inheritance chain above a class.\<close>

fun depth :: "error_class \<Rightarrow> nat" where
  "depth StdException = 0"
| "depth BoostException = 0"
| "depth Error = 1"
| "depth RedefinitionError = 3"
| "depth DuplicateArgumentError = 3"
| "depth UndefinedElement = 3"
| "depth CycleError = 3"
| "depth _ = 2"

text \<open>
  \<open>catches h t\<close>: a handler \<^verbatim>\<open>catch (const h&)\<close> accepts a thrown object whose
  dynamic class is \<open>t\<close>, that is, \<open>t\<close> is \<open>h\<close> or \<open>h\<close> is a public base class
  of \<open>t\<close>, directly or through a chain of bases.
\<close>

function catches :: "error_class \<Rightarrow> error_class \<Rightarrow> bool" where
  "catches h t = (t = h \<or> list_ex (catches h) (bases t))"
  by pat_completeness auto
termination
proof (relation "measure (\<lambda>(h, t). depth t)")
  show "wf (measure (\<lambda>(h, t). depth t))"
    by simp
next
  fix h t b
  assume "b \<in> set (bases t)"
  then have "depth b < depth t"
    by (cases t) auto
  then show "((h, b), (h, t)) \<in> measure (\<lambda>(h, t). depth t)"
    by simp
qed

text \<open>
  An exception object: its dynamic class and the message \<^verbatim>\<open>msg_\<close> given to the
  constructor of \<^verbatim>\<open>Error\<close>. A private member \<^verbatim>\<open>x_\<close> of the source is
  written \<open>x_m\<close> throughout.
\<close>

record exception =
  dynamic_class :: error_class
  msg_m :: string

definition throw :: "error_class \<Rightarrow> string \<Rightarrow> exception" where
  "throw c m = \<lparr>dynamic_class = c, msg_m = m\<rparr>"

text \<open>
  What a call does: it returns a value, leaves by an exception, stops the program at a
  failed \<^verbatim>\<open>assert\<close>, or has undefined behaviour (a null pointer is dereferenced).
\<close>

datatype 'a outcome =
    Returns 'a
  | Throws exception
  | AssertionFailed
  | UndefinedBehavior

fun thrown_class :: "'a outcome \<Rightarrow> error_class option" where
  "thrown_class (Throws e) = Some (dynamic_class e)"
| "thrown_class _ = None"

section \<open>Events (event.h)\<close>

text \<open>Modelled from the spec: the base class Role of Event, which element.h declares.
  The spec gives a named entity a container path and a public or private role, the two
  values that the constructor of Event hands on.\<close>

record Role =
  is_public_m :: bool
  base_path_m :: string

record Event = Role +
  id_m :: string
  name_m :: string
  orphan_m :: bool

record PrimaryEvent = Event +
  has_expression_m :: bool

record HouseEvent = PrimaryEvent +
  state_m :: bool

text \<open>\<^verbatim>\<open>void HouseEvent::state(bool constant)\<close>\<close>

definition HouseEvent_state :: "HouseEvent \<Rightarrow> bool \<Rightarrow> HouseEvent" where
  "HouseEvent_state h constant = (h\<lparr>has_expression_m := True\<rparr>)\<lparr>state_m := constant\<rparr>"

text \<open>
  Modelled from the spec: the lower-casing of a name. The constructor of Event is
  defined outside the header; the spec says that the id is the lower-cased name. Only
  the letters A to Z change.
\<close>

definition to_lower_char :: "char \<Rightarrow> char" where
  "to_lower_char c =
     (case map_of (zip ''ABCDEFGHIJKLMNOPQRSTUVWXYZ'' ''abcdefghijklmnopqrstuvwxyz'') c of
        None \<Rightarrow> c
      | Some l \<Rightarrow> l)"

definition to_lower :: "string \<Rightarrow> string" where
  "to_lower s = map to_lower_char s"

text \<open>
  Modelled from the spec: the constructor \<^verbatim>\<open>Event(name, base_path, is_public)\<close>,
  declared in event.h and defined elsewhere. The name is kept as given and the id is its
  lower-cased form; an event that no formula refers to is an orphan.
\<close>

definition Event_ctor :: "string \<Rightarrow> string \<Rightarrow> bool \<Rightarrow> Event" where
  "Event_ctor name base_path is_public =
     \<lparr>is_public_m = is_public, base_path_m = base_path,
      id_m = to_lower name, name_m = name, orphan_m = True\<rparr>"

text \<open>\<^verbatim>\<open>using PrimaryEvent::PrimaryEvent\<close>, with the member initialisers
  \<^verbatim>\<open>has_expression_ = false\<close> and \<^verbatim>\<open>state_ = false\<close>.\<close>

definition HouseEvent_ctor :: "string \<Rightarrow> string \<Rightarrow> bool \<Rightarrow> HouseEvent" where
  "HouseEvent_ctor name base_path is_public =
     (let e = Event_ctor name base_path is_public in
      \<lparr>is_public_m = is_public_m e, base_path_m = base_path_m e,
       id_m = id_m e, name_m = name_m e, orphan_m = orphan_m e,
       has_expression_m = False, state_m = False\<rparr>)"

subsection \<open>Expressions\<close>

text \<open>
  A \<^verbatim>\<open>double\<close>: a finite value, an infinity or a NaN, with the comparisons
  \<^verbatim>\<open><\<close> and \<^verbatim>\<open><=\<close> of IEEE 754 (every comparison with a NaN is false).
\<close>

datatype double = Finite real | PlusInfinity | MinusInfinity | NaN

fun dless :: "double \<Rightarrow> double \<Rightarrow> bool" where
  "dless (Finite x) (Finite y) = (x < y)"
| "dless (Finite x) PlusInfinity = True"
| "dless MinusInfinity (Finite y) = True"
| "dless MinusInfinity PlusInfinity = True"
| "dless _ _ = False"

fun dle :: "double \<Rightarrow> double \<Rightarrow> bool" where
  "dle (Finite x) (Finite y) = (x \<le> y)"
| "dle (Finite x) PlusInfinity = True"
| "dle MinusInfinity (Finite y) = True"
| "dle MinusInfinity PlusInfinity = True"
| "dle MinusInfinity MinusInfinity = True"
| "dle PlusInfinity PlusInfinity = True"
| "dle _ _ = False"

text \<open>
  Modelled from the spec: the class Expression, which expression.h declares. The spec
  gives every expression a deterministic point value
  \<^verbatim>\<open>Mean()\<close> and the bounds \<^verbatim>\<open>Min()\<close> and \<^verbatim>\<open>Max()\<close> of its
  support, all three pure; an expression is represented by these three values.
  An \<^verbatim>\<open>ExpressionPtr\<close> is a shared pointer, \<open>None\<close> when it is null.
\<close>

record Expression =
  Expression_Mean :: double
  Expression_Min :: double
  Expression_Max :: double

type_synonym ExpressionPtr = "Expression option"

subsection \<open>Gates and basic events\<close>

text \<open>
  A gate owns its formula through a \<^verbatim>\<open>unique_ptr\<close>, and a formula holds gates
  again. The type \<open>'f\<close> stands for the formula a gate points to; no operation below
  looks into it. \<open>None\<close> is the null pointer.
\<close>

record 'f Gate = Event +
  formula_m :: "'f option"
  mark_m :: string

type_synonym 'f GatePtr = "'f Gate option"

record 'f BasicEvent = PrimaryEvent +
  expression_m :: ExpressionPtr
  ccf_gate_m :: "'f GatePtr"

text \<open>\<^verbatim>\<open>using PrimaryEvent::PrimaryEvent\<close>; both shared pointers start null.\<close>

definition BasicEvent_ctor :: "string \<Rightarrow> string \<Rightarrow> bool \<Rightarrow> 'f BasicEvent" where
  "BasicEvent_ctor name base_path is_public =
     (let e = Event_ctor name base_path is_public in
      \<lparr>is_public_m = is_public_m e, base_path_m = base_path_m e,
       id_m = id_m e, name_m = name_m e, orphan_m = orphan_m e,
       has_expression_m = False, expression_m = None, ccf_gate_m = None\<rparr>)"

text \<open>\<^verbatim>\<open>using Event::Event\<close>; the formula pointer starts null and the mark
  empty.\<close>

definition Gate_ctor :: "string \<Rightarrow> string \<Rightarrow> bool \<Rightarrow> 'f Gate" where
  "Gate_ctor name base_path is_public =
     (let e = Event_ctor name base_path is_public in
      \<lparr>is_public_m = is_public_m e, base_path_m = base_path_m e,
       id_m = id_m e, name_m = name_m e, orphan_m = orphan_m e,
       formula_m = None, mark_m = []\<rparr>)"

text \<open>
  \<^verbatim>\<open>assert(c)\<close> stops the program when \<open>c\<close> is false, unless the program is
  compiled with \<^verbatim>\<open>NDEBUG\<close>, where the macro expands to nothing. \<open>assert_fails\<close>
  says that the program stops there.
\<close>

definition assert_fails :: "bool \<Rightarrow> bool \<Rightarrow> bool" where
  "assert_fails NDEBUG c = (\<not> NDEBUG \<and> \<not> c)"

text \<open>\<^verbatim>\<open>void BasicEvent::expression(const ExpressionPtr& expression)\<close>\<close>

definition BasicEvent_expression ::
  "bool \<Rightarrow> 'f BasicEvent \<Rightarrow> ExpressionPtr \<Rightarrow> unit outcome \<times> 'f BasicEvent" where
  "BasicEvent_expression NDEBUG b expression =
     (if assert_fails NDEBUG (expression_m b = None) then (AssertionFailed, b)
      else (Returns (), (b\<lparr>has_expression_m := True\<rparr>)\<lparr>expression_m := expression\<rparr>))"

text \<open>\<^verbatim>\<open>double BasicEvent::p() const noexcept\<close>. Without the assertion a null
  \<^verbatim>\<open>expression_\<close> is dereferenced.\<close>

definition BasicEvent_p :: "bool \<Rightarrow> 'f BasicEvent \<Rightarrow> double outcome \<times> 'f BasicEvent" where
  "BasicEvent_p NDEBUG b =
     (if assert_fails NDEBUG (expression_m b \<noteq> None) then (AssertionFailed, b)
      else case expression_m b of
             None \<Rightarrow> (UndefinedBehavior, b)
           | Some e \<Rightarrow> (Returns (Expression_Mean e), b))"

text \<open>\<^verbatim>\<open>void BasicEvent::Validate()\<close>; the literals 0 and 1 are converted to
  \<^verbatim>\<open>double\<close> for the comparisons.\<close>

definition BasicEvent_Validate :: "'f BasicEvent \<Rightarrow> unit outcome \<times> 'f BasicEvent" where
  "BasicEvent_Validate b =
     (case expression_m b of
        None \<Rightarrow> (UndefinedBehavior, b)
      | Some e \<Rightarrow>
          if dless (Expression_Min e) (Finite 0) \<or> dless (Finite 1) (Expression_Max e)
          then (Throws (throw ValidationError ''Expression value is invalid.''), b)
          else (Returns (), b))"








section \<open>Formulas (event.h)\<close>

text \<open>
  An \<^verbatim>\<open>EventPtr\<close> is a shared pointer to an event, which is a house event, a
  basic event or a gate. The pointers that a formula receives point to events; a null
  pointer is not an argument.
\<close>

datatype 'f EventPtr =
    PtrHouseEvent HouseEvent
  | PtrBasicEvent "'f BasicEvent"
  | PtrGate "'f Gate"

fun EventPtr_id :: "'f EventPtr \<Rightarrow> string" where
  "EventPtr_id (PtrHouseEvent e) = id_m e"
| "EventPtr_id (PtrBasicEvent e) = id_m e"
| "EventPtr_id (PtrGate e) = id_m e"

fun EventPtr_name :: "'f EventPtr \<Rightarrow> string" where
  "EventPtr_name (PtrHouseEvent e) = name_m e"
| "EventPtr_name (PtrBasicEvent e) = name_m e"
| "EventPtr_name (PtrGate e) = name_m e"

text \<open>
  The members of \<^verbatim>\<open>Formula\<close>. The vote number is an \<^verbatim>\<open>int\<close>, a word of
  32 bits read as a signed number. \<open>'f\<close> is the type of a nested formula.
\<close>

record 'f Formula =
  type_m :: string
  vote_number_m :: "32 word"
  event_args_m :: "(string, 'f EventPtr) fmap"
  house_event_args_m :: "HouseEvent list"
  basic_event_args_m :: "'f BasicEvent list"
  gate_args_m :: "'f Gate list"
  formula_args_m :: "'f list"
  nodes_m :: "'f Gate list"
  connectors_m :: "'f list"
  gather_m :: bool

text \<open>
  \<^verbatim>\<open>int Formula::num_args() const\<close>: the two sizes are \<^verbatim>\<open>size_t\<close>, of 64
  bits here, and their sum is converted to \<^verbatim>\<open>int\<close>.
\<close>

definition num_args :: "'f Formula \<Rightarrow> 32 word" where
  "num_args f =
     ucast ((word_of_nat (fcard (fmdom (event_args_m f))) :: 64 word)
            + word_of_nat (length (formula_args_m f)))"

text \<open>
  \<^verbatim>\<open>template<class Ptr> void Formula::AddArgument(const Ptr& event,
  std::vector<Ptr>* container)\<close>. The second argument of the model appends the event
  to the container that the caller chose.
\<close>

definition AddArgument_to ::
  "'f EventPtr \<Rightarrow> ('f Formula \<Rightarrow> 'f Formula) \<Rightarrow> 'f Formula \<Rightarrow> unit outcome \<times> 'f Formula" where
  "AddArgument_to event emplace_back f =
     (if EventPtr_id event |\<in>| fmdom (event_args_m f)
      then (Throws (throw DuplicateArgumentError (''Duplicate argument '' @ EventPtr_name event)), f)
      else (Returns (),
            emplace_back (f\<lparr>event_args_m := fmupd (EventPtr_id event) event (event_args_m f)\<rparr>)))"

text \<open>
  The three public overloads of \<^verbatim>\<open>AddArgument\<close>, and the choice among them by
  the type of the argument.
\<close>

definition AddArgument_HouseEvent :: "'f Formula \<Rightarrow> HouseEvent \<Rightarrow> unit outcome \<times> 'f Formula" where
  "AddArgument_HouseEvent f event =
     AddArgument_to (PtrHouseEvent event)
       (\<lambda>f. f\<lparr>house_event_args_m := house_event_args_m f @ [event]\<rparr>) f"

definition AddArgument_BasicEvent :: "'f Formula \<Rightarrow> 'f BasicEvent \<Rightarrow> unit outcome \<times> 'f Formula" where
  "AddArgument_BasicEvent f event =
     AddArgument_to (PtrBasicEvent event)
       (\<lambda>f. f\<lparr>basic_event_args_m := basic_event_args_m f @ [event]\<rparr>) f"

definition AddArgument_Gate :: "'f Formula \<Rightarrow> 'f Gate \<Rightarrow> unit outcome \<times> 'f Formula" where
  "AddArgument_Gate f event =
     AddArgument_to (PtrGate event)
       (\<lambda>f. f\<lparr>gate_args_m := gate_args_m f @ [event]\<rparr>) f"

fun AddArgument :: "'f Formula \<Rightarrow> 'f EventPtr \<Rightarrow> unit outcome \<times> 'f Formula" where
  "AddArgument f (PtrHouseEvent event) = AddArgument_HouseEvent f event"
| "AddArgument f (PtrBasicEvent event) = AddArgument_BasicEvent f event"
| "AddArgument f (PtrGate event) = AddArgument_Gate f event"

text \<open>
  A caller that adds events one after another and catches the exception of each call:
  the outcomes of the calls, in order, and the formula after the last one.
\<close>

fun AddArguments :: "'f Formula \<Rightarrow> 'f EventPtr list \<Rightarrow> unit outcome list \<times> 'f Formula" where
  "AddArguments f [] = ([], f)"
| "AddArguments f (event # events) =
     (case AddArgument f event of
        (r, f') \<Rightarrow> (case AddArguments f' events of (rs, f'') \<Rightarrow> (r # rs, f'')))"

text \<open>
  The ids of the events in the three sequences of a formula, and the invariant that
  links them to the map \<^verbatim>\<open>event_args_\<close>: the keys of the map are these ids, and
  no id occurs twice.
\<close>

definition arg_ids :: "'f Formula \<Rightarrow> string list" where
  "arg_ids f = map id_m (house_event_args_m f) @ map id_m (basic_event_args_m f)
               @ map id_m (gate_args_m f)"

definition Formula_inv :: "'f Formula \<Rightarrow> bool" where
  "Formula_inv f = (fset (fmdom (event_args_m f)) = set (arg_ids f) \<and> distinct (arg_ids f))"

text \<open>
  The outcome of \<^verbatim>\<open>AddArgument\<close> on a duplicate.
\<close>

definition duplicate :: "'f EventPtr \<Rightarrow> unit outcome" where
  "duplicate event =
     Throws (throw DuplicateArgumentError (''Duplicate argument '' @ EventPtr_name event))"

text \<open>
  Modelled from the spec: the contents of the sets \<^verbatim>\<open>kTwoOrMore_\<close> and
  \<^verbatim>\<open>kSingle_\<close>, which event.h declares and another file defines. The spec gives the
  operators and their arities; the operator names are the tags of the input format.
\<close>

definition kTwoOrMore_m :: "string set" where
  "kTwoOrMore_m = {''and'', ''or'', ''nand'', ''nor'', ''xor''}"

definition kSingle_m :: "string set" where
  "kSingle_m = {''null'', ''not''}"

text \<open>
  Modelled from the spec: \<^verbatim>\<open>void Formula::Validate()\<close>, which event.h declares
  and another file defines. NULL and NOT take exactly one argument, AND, OR, NAND, NOR
  and XOR two or more, and ATLEAST two or more with a vote number \<open>k\<close> such that
  \<open>2 \<le> k < n\<close>. The spec gives no message for the error; it is left empty.
\<close>

definition Formula_Validate :: "'f Formula \<Rightarrow> unit outcome \<times> 'f Formula" where
  "Formula_Validate f =
     (let size = fcard (fmdom (event_args_m f)) + length (formula_args_m f) in
      if type_m f \<in> kSingle_m \<and> size \<noteq> 1
      then (Throws (throw ValidationError []), f)
      else if type_m f \<in> kTwoOrMore_m \<and> size < 2
      then (Throws (throw ValidationError []), f)
      else if type_m f = ''atleast''
              \<and> (size < 2 \<or> sint (vote_number_m f) < 2 \<or> int size \<le> sint (vote_number_m f))
      then (Throws (throw ValidationError []), f)
      else (Returns (), f))"


subsection \<open>Sample objects\<close>

definition half :: Expression where
  "half = \<lparr>Expression_Mean = Finite (1 / 2), Expression_Min = Finite 0,
            Expression_Max = Finite 1\<rparr>"

definition excess :: Expression where
  "excess = \<lparr>Expression_Mean = Finite 1, Expression_Min = Finite (1 / 2),
              Expression_Max = Finite (3 / 2)\<rparr>"

definition pump :: "unit BasicEvent" where
  "pump = BasicEvent_ctor ''Pump'' [] True"

definition pump_ccf :: "unit Gate" where
  "pump_ccf = Gate_ctor ''PumpCcf'' [] True"


definition or_formula :: "unit Formula" where
  "or_formula =
     \<lparr>type_m = ''or'', vote_number_m = 0, event_args_m = fmempty,
      house_event_args_m = [], basic_event_args_m = [], gate_args_m = [],
      formula_args_m = [], nodes_m = [], connectors_m = [], gather_m = True\<rparr>"

definition valve :: "unit BasicEvent" where
  "valve = BasicEvent_ctor ''Valve'' [] True"

definition pump_switch :: HouseEvent where
  "pump_switch = HouseEvent_ctor ''PUMP'' [] True"

section \<open>Properties of the exception classes\<close>

lemma catches_refl: "catches h h"
  by simp

lemma catches_base: "b \<in> set (bases t) \<Longrightarrow> catches h b \<Longrightarrow> catches h t"
  by (subst catches.simps) (auto simp: list_ex_iff simp del: catches.simps)

text \<open>
  Claim C8. RedefinitionError, DuplicateArgumentError, UndefinedElement and CycleError
  each derive from ValidationError: a handler for ValidationError accepts an exception
  of any of the four classes. The four are different classes, and none of them is
  accepted by the handler of another one.
\<close>

theorem validation_error_subtypes:
  "catches ValidationError RedefinitionError
   \<and> catches ValidationError DuplicateArgumentError
   \<and> catches ValidationError UndefinedElement
   \<and> catches ValidationError CycleError
   \<and> bases RedefinitionError = [ValidationError]
   \<and> bases DuplicateArgumentError = [ValidationError]
   \<and> bases UndefinedElement = [ValidationError]
   \<and> bases CycleError = [ValidationError]
   \<and> distinct [RedefinitionError, DuplicateArgumentError, UndefinedElement, CycleError]
   \<and> \<not> catches RedefinitionError DuplicateArgumentError
   \<and> \<not> catches DuplicateArgumentError UndefinedElement
   \<and> \<not> catches UndefinedElement CycleError
   \<and> \<not> catches CycleError RedefinitionError"
  by simp

section \<open>Properties of house events\<close>

text \<open>
  Claim C6. After \<^verbatim>\<open>h.state(b)\<close> the state of the house event is \<open>b\<close> and its
  expression flag is set; the id, the name, the orphan flag and the role of \<open>h\<close> are
  as before.
\<close>

theorem house_event_state_frame:
  "state_m (HouseEvent_state h b) = b
   \<and> has_expression_m (HouseEvent_state h b) = True
   \<and> id_m (HouseEvent_state h b) = id_m h
   \<and> name_m (HouseEvent_state h b) = name_m h
   \<and> orphan_m (HouseEvent_state h b) = orphan_m h
   \<and> is_public_m (HouseEvent_state h b) = is_public_m h
   \<and> base_path_m (HouseEvent_state h b) = base_path_m h
   \<and> HouseEvent_state h b = h\<lparr>has_expression_m := True, state_m := b\<rparr>"
  by (simp add: HouseEvent_state_def)

section \<open>Properties of events\<close>

lemma to_lower_char_idem: "to_lower_char (to_lower_char c) = to_lower_char c"
  by (simp add: to_lower_char_def)

lemma to_lower_idem: "to_lower (to_lower s) = to_lower s"
  by (simp add: to_lower_def to_lower_char_idem)

lemma to_lower_char_not_upper: "to_lower_char c \<notin> set ''ABCDEFGHIJKLMNOPQRSTUVWXYZ''"
  by (simp add: to_lower_char_def)

text \<open>
  Claim C7. An event constructed with the name \<open>n\<close> has the name \<open>n\<close>, unchanged,
  and the id \<open>to_lower n\<close>: the id has the length of the name, holds no upper-case
  letter and agrees with the name wherever the name has none. Two events have the same
  id exactly when their names agree up to the case of the letters. The constructors of
  house events, basic events and gates are the constructor of Event.
\<close>

theorem event_name_and_id:
  "name_m (Event_ctor n bp pub) = n
   \<and> id_m (Event_ctor n bp pub) = to_lower n
   \<and> length (id_m (Event_ctor n bp pub)) = length n
   \<and> (\<forall>c \<in> set (id_m (Event_ctor n bp pub)). c \<notin> set ''ABCDEFGHIJKLMNOPQRSTUVWXYZ'')
   \<and> (\<forall>i < length n. n ! i \<notin> set ''ABCDEFGHIJKLMNOPQRSTUVWXYZ''
         \<longrightarrow> id_m (Event_ctor n bp pub) ! i = n ! i)
   \<and> to_lower (id_m (Event_ctor n bp pub)) = id_m (Event_ctor n bp pub)
   \<and> (id_m (Event_ctor n bp pub) = id_m (Event_ctor n' bp' pub') \<longleftrightarrow> to_lower n = to_lower n')
   \<and> name_m (HouseEvent_ctor n bp pub) = n \<and> id_m (HouseEvent_ctor n bp pub) = to_lower n
   \<and> name_m (BasicEvent_ctor n bp pub :: 'f BasicEvent) = n
   \<and> id_m (BasicEvent_ctor n bp pub :: 'f BasicEvent) = to_lower n
   \<and> name_m (Gate_ctor n bp pub :: 'f Gate) = n
   \<and> id_m (Gate_ctor n bp pub :: 'f Gate) = to_lower n"
proof -
  have keep: "to_lower_char c = c" if "c \<notin> set ''ABCDEFGHIJKLMNOPQRSTUVWXYZ''" for c
    using that by (simp add: to_lower_char_def)
  have "\<forall>c \<in> set (to_lower n). c \<notin> set ''ABCDEFGHIJKLMNOPQRSTUVWXYZ''"
    unfolding to_lower_def using to_lower_char_not_upper by auto
  moreover have "\<forall>i < length n. n ! i \<notin> set ''ABCDEFGHIJKLMNOPQRSTUVWXYZ''
         \<longrightarrow> to_lower n ! i = n ! i"
    unfolding to_lower_def using keep by simp
  ultimately show ?thesis
    by (simp add: Event_ctor_def HouseEvent_ctor_def BasicEvent_ctor_def Gate_ctor_def
        Let_def to_lower_idem) (simp add: to_lower_def)
qed

theorem event_name_and_id_witness:
  "name_m (Event_ctor ''Pump-A1'' [] True) = ''Pump-A1''
   \<and> id_m (Event_ctor ''Pump-A1'' [] True) = ''pump-a1''
   \<and> id_m (Event_ctor ''PUMP-a1'' ''plant'' False) = id_m (Event_ctor ''Pump-A1'' [] True)
   \<and> id_m (Event_ctor ''Pump-A2'' [] True) \<noteq> id_m (Event_ctor ''Pump-A1'' [] True)"
proof -
  have lower: "to_lower ''Pump-A1'' = ''pump-a1''" "to_lower ''PUMP-a1'' = ''pump-a1''"
    "to_lower ''Pump-A2'' = ''pump-a2''"
    by (simp_all add: to_lower_def to_lower_char_def)
  have "name_m (Event_ctor ''Pump-A1'' [] True) = ''Pump-A1''"
    using event_name_and_id [of "''Pump-A1''" "[]" True] by blast
  moreover have "id_m (Event_ctor ''Pump-A1'' [] True) = to_lower ''Pump-A1''"
    using event_name_and_id [of "''Pump-A1''" "[]" True] by blast
  moreover have "id_m (Event_ctor ''PUMP-a1'' ''plant'' False) = id_m (Event_ctor ''Pump-A1'' [] True)
      \<longleftrightarrow> to_lower ''PUMP-a1'' = to_lower ''Pump-A1''"
    using event_name_and_id [of "''PUMP-a1''" "''plant''" False "''Pump-A1''" "[]" True] by blast
  moreover have "id_m (Event_ctor ''Pump-A2'' [] True) = id_m (Event_ctor ''Pump-A1'' [] True)
      \<longleftrightarrow> to_lower ''Pump-A2'' = to_lower ''Pump-A1''"
    using event_name_and_id [of "''Pump-A2''" "[]" True "''Pump-A1''" "[]" True] by blast
  ultimately show ?thesis
    by (simp add: lower)
qed

section \<open>Properties of basic events\<close>

lemma dle_not_dless: "dle x y \<Longrightarrow> \<not> dless y x"
  by (cases x; cases y) auto

text \<open>
  Claim C1. For a basic event with an expression \<open>e\<close>, \<^verbatim>\<open>Validate()\<close> throws
  ValidationError exactly when \<open>Min(e) < 0\<close> or \<open>Max(e) > 1\<close>, and it returns
  normally when \<open>0 \<le> Min(e)\<close> and \<open>Max(e) \<le> 1\<close>.
\<close>

theorem basic_event_validate:
  assumes "expression_m b = Some e"
  shows "(thrown_class (fst (BasicEvent_Validate b)) = Some ValidationError
           \<longleftrightarrow> dless (Expression_Min e) (Finite 0) \<or> dless (Finite 1) (Expression_Max e))
     \<and> BasicEvent_Validate b =
         (if dless (Expression_Min e) (Finite 0) \<or> dless (Finite 1) (Expression_Max e)
          then Throws (throw ValidationError ''Expression value is invalid.'')
          else Returns (), b)
     \<and> (dle (Finite 0) (Expression_Min e) \<and> dle (Expression_Max e) (Finite 1)
          \<longrightarrow> BasicEvent_Validate b = (Returns (), b))"
  using assms by (auto simp: BasicEvent_Validate_def throw_def dest: dle_not_dless)

theorem basic_event_validate_witness:
  "BasicEvent_Validate (pump\<lparr>expression_m := Some half\<rparr>)
     = (Returns (), pump\<lparr>expression_m := Some half\<rparr>)
   \<and> BasicEvent_Validate (pump\<lparr>expression_m := Some excess\<rparr>)
     = (Throws (throw ValidationError ''Expression value is invalid.''),
        pump\<lparr>expression_m := Some excess\<rparr>)"
  using basic_event_validate [of "pump\<lparr>expression_m := Some half\<rparr>" half]
    basic_event_validate [of "pump\<lparr>expression_m := Some excess\<rparr>" excess]
  by (simp add: half_def excess_def)

text \<open>
  Claim C5. For a basic event whose expression \<open>e\<close> has been set, \<^verbatim>\<open>p()\<close>
  returns \<open>Mean(e)\<close> and leaves the event, with its expression, as it was, whether
  or not assertions are compiled in. This is the case after every call
  \<^verbatim>\<open>expression(e)\<close> that returns, and then \<^verbatim>\<open>has_expression()\<close> is true.
\<close>

theorem basic_event_p:
  "(expression_m b = Some e \<longrightarrow> BasicEvent_p NDEBUG b = (Returns (Expression_Mean e), b))
   \<and> (BasicEvent_expression NDEBUG b0 (Some e) = (Returns (), b1) \<longrightarrow>
        has_expression_m b1 \<and> expression_m b1 = Some e
        \<and> BasicEvent_p NDEBUG b1 = (Returns (Expression_Mean e), b1))"
  by (auto simp: BasicEvent_p_def BasicEvent_expression_def assert_fails_def split: if_splits)

theorem basic_event_p_witness:
  "BasicEvent_expression False pump (Some half)
     = (Returns (), pump\<lparr>has_expression_m := True, expression_m := Some half\<rparr>)
   \<and> has_expression_m (pump\<lparr>has_expression_m := True, expression_m := Some half\<rparr>)
   \<and> BasicEvent_p False (pump\<lparr>has_expression_m := True, expression_m := Some half\<rparr>)
     = (Returns (Finite (1 / 2)), pump\<lparr>has_expression_m := True, expression_m := Some half\<rparr>)"
proof -
  let ?b1 = "pump\<lparr>has_expression_m := True, expression_m := Some half\<rparr>"
  have first: "BasicEvent_expression False pump (Some half) = (Returns (), ?b1)"
    by (simp add: pump_def BasicEvent_ctor_def BasicEvent_expression_def
        assert_fails_def Let_def)
  have mean: "Expression_Mean half = Finite (1 / 2)"
    by (simp add: half_def)
  from basic_event_p [of ?b1 half False pump ?b1] first
  have "has_expression_m ?b1 \<and> BasicEvent_p False ?b1 = (Returns (Expression_Mean half), ?b1)"
    by blast
  with first show ?thesis
    by (simp only: mean) 
qed

text \<open>
  Claim C4, as amended. After a call \<^verbatim>\<open>b.expression(e)\<close> that returns, with an
  expression \<open>e\<close> that is not null, the event holds \<open>e\<close> and its flag is set, and a
  second call \<^verbatim>\<open>b.expression(e')\<close> throws no exception in any build, LogicError
  or other; indeed no call of the setter does, on any event. In a program with
  assertions the second call fails the assertion \<^verbatim>\<open>!expression_\<close>: the program
  stops, and the expression and the flag of \<open>b\<close> are as the first call left them.
  With \<^verbatim>\<open>NDEBUG\<close> the second call returns, the flag stays set and the expression
  is \<open>e'\<close>.
\<close>

theorem expression_assigned_once:
  assumes "BasicEvent_expression nd (b :: 'f BasicEvent) (Some e) = (Returns (), b1)"
  shows "expression_m b1 = Some e \<and> has_expression_m b1 = True
    \<and> thrown_class (fst (BasicEvent_expression nd' b1 e')) = None
    \<and> thrown_class (fst (BasicEvent_expression nd' (b2 :: 'f BasicEvent) e')) = None
    \<and> BasicEvent_expression False b1 e' = (AssertionFailed, b1)
    \<and> BasicEvent_expression True b1 e' = (Returns (), b1\<lparr>expression_m := e'\<rparr>)
    \<and> has_expression_m (b1\<lparr>expression_m := e'\<rparr>) = True"
proof -
  from assms have b1: "b1 = b\<lparr>has_expression_m := True, expression_m := Some e\<rparr>"
    by (simp add: BasicEvent_expression_def split: if_splits)
  have quiet: "thrown_class (fst (BasicEvent_expression nd' x e')) = None" for x :: "'f BasicEvent"
    by (simp add: BasicEvent_expression_def)
  have stop: "BasicEvent_expression False b1 e' = (AssertionFailed, b1)"
    unfolding b1 by (simp add: BasicEvent_expression_def assert_fails_def)
  have over: "BasicEvent_expression True b1 e' = (Returns (), b1\<lparr>expression_m := e'\<rparr>)"
    unfolding b1 by (simp add: BasicEvent_expression_def assert_fails_def)
  from b1 quiet [of b1] quiet [of b2] stop over show ?thesis
    by simp
qed

theorem expression_assigned_once_witness:
  "BasicEvent_expression False pump (Some half)
     = (Returns (), pump\<lparr>has_expression_m := True, expression_m := Some half\<rparr>)
   \<and> BasicEvent_expression False
        (pump\<lparr>has_expression_m := True, expression_m := Some half\<rparr>) (Some excess)
     = (AssertionFailed, pump\<lparr>has_expression_m := True, expression_m := Some half\<rparr>)
   \<and> BasicEvent_expression True
        (pump\<lparr>has_expression_m := True, expression_m := Some half\<rparr>) (Some excess)
     = (Returns (), pump\<lparr>has_expression_m := True, expression_m := Some excess\<rparr>)
   \<and> thrown_class (fst (BasicEvent_expression True
        (pump\<lparr>has_expression_m := True, expression_m := Some half\<rparr>) None)) = None"
proof -
  let ?b1 = "pump\<lparr>has_expression_m := True, expression_m := Some half\<rparr>"
  have first: "BasicEvent_expression False pump (Some half) = (Returns (), ?b1)"
    by (simp add: pump_def BasicEvent_ctor_def BasicEvent_expression_def
        assert_fails_def Let_def)
  have "BasicEvent_expression False ?b1 (Some excess) = (AssertionFailed, ?b1)"
    using expression_assigned_once [OF first, where e' = "Some excess"] by blast
  moreover have "BasicEvent_expression True ?b1 (Some excess)
      = (Returns (), pump\<lparr>has_expression_m := True, expression_m := Some excess\<rparr>)"
  proof -
    have "BasicEvent_expression True ?b1 (Some excess)
        = (Returns (), ?b1\<lparr>expression_m := Some excess\<rparr>)"
      using expression_assigned_once [OF first, where e' = "Some excess"] by blast
    also have "?b1\<lparr>expression_m := Some excess\<rparr>
        = pump\<lparr>has_expression_m := True, expression_m := Some excess\<rparr>"
      by (simp add: pump_def BasicEvent_ctor_def Let_def)
    finally show ?thesis .
  qed
  moreover have "thrown_class (fst (BasicEvent_expression True ?b1 None)) = None"
    using expression_assigned_once [OF first, where e' = None and nd' = True] by blast
  ultimately show ?thesis
    using first by - (intro conjI, assumption+)
qed

text \<open>
  Claim C4, as stated, fails: the second assignment does not throw LogicError. With
  assertions the call ends at the failed assertion; with \<^verbatim>\<open>NDEBUG\<close> it returns
  and the second expression has replaced the first.
\<close>

theorem expression_reassign_counterexample:
  "thrown_class (fst (BasicEvent_expression False
      (snd (BasicEvent_expression False pump (Some half))) (Some excess))) \<noteq> Some LogicError
   \<and> fst (BasicEvent_expression False pump (Some half)) = Returns ()
   \<and> fst (BasicEvent_expression False
      (snd (BasicEvent_expression False pump (Some half))) (Some excess)) = AssertionFailed
   \<and> thrown_class (fst (BasicEvent_expression True
      (snd (BasicEvent_expression True pump (Some half))) (Some excess))) \<noteq> Some LogicError
   \<and> fst (BasicEvent_expression True pump (Some half)) = Returns ()
   \<and> expression_m (snd (BasicEvent_expression True
      (snd (BasicEvent_expression True pump (Some half))) (Some excess))) = Some excess
   \<and> excess \<noteq> half"
  by (simp add: pump_def BasicEvent_ctor_def BasicEvent_expression_def
      assert_fails_def Let_def half_def excess_def)










section \<open>Properties of formulas\<close>

lemma num_args_count:
  "num_args f = word_of_nat (fcard (fmdom (event_args_m f)) + length (formula_args_m f))"
proof -
  have "(word_of_nat (fcard (fmdom (event_args_m f))) :: 64 word)
          + word_of_nat (length (formula_args_m f))
        = word_of_nat (fcard (fmdom (event_args_m f)) + length (formula_args_m f))"
    by simp
  then show ?thesis
    unfolding num_args_def
    by (simp only: unsigned_of_nat word_of_nat_eq_iff take_bit_take_bit) simp
qed

lemma sint_word_of_nat:
  assumes "n < 2 ^ 31"
  shows "sint (word_of_nat n :: 32 word) = int n"
proof -
  have "sint (word_of_nat n :: 32 word) = sint (word_of_int (int n) :: 32 word)"
    by simp
  also have "\<dots> = (int n + 2 ^ 31) mod 2 ^ 32 - 2 ^ 31"
    by (simp only: int_word_sint) simp
  also have "\<dots> = int n"
    using assms by simp
  finally show ?thesis .
qed

lemma AddArgument_unfold:
  "AddArgument f ev =
     (if EventPtr_id ev |\<in>| fmdom (event_args_m f) then (duplicate ev, f)
      else (Returns (), snd (AddArgument f ev)))"
  by (cases ev)
    (simp_all add: AddArgument_HouseEvent_def AddArgument_BasicEvent_def AddArgument_Gate_def
      AddArgument_to_def duplicate_def)

lemma AddArgument_fresh:
  assumes "EventPtr_id ev |\<notin>| fmdom (event_args_m f)"
  shows "event_args_m (snd (AddArgument f ev)) = fmupd (EventPtr_id ev) ev (event_args_m f)"
    and "formula_args_m (snd (AddArgument f ev)) = formula_args_m f"
    and "set (arg_ids (snd (AddArgument f ev))) = insert (EventPtr_id ev) (set (arg_ids f))"
    and "distinct (arg_ids (snd (AddArgument f ev)))
          \<longleftrightarrow> distinct (arg_ids f) \<and> EventPtr_id ev \<notin> set (arg_ids f)"
  using assms
  by (cases ev;
      simp add: AddArgument_HouseEvent_def AddArgument_BasicEvent_def AddArgument_Gate_def
        AddArgument_to_def arg_ids_def; blast)+


lemma AddArgument_dom:
  "fmdom (event_args_m (snd (AddArgument f ev))) = finsert (EventPtr_id ev) (fmdom (event_args_m f))"
proof (cases "EventPtr_id ev |\<in>| fmdom (event_args_m f)")
  case True
  then have "snd (AddArgument f ev) = f"
    by (subst AddArgument_unfold) simp
  with True show ?thesis
    by (simp add: finsert_absorb)
next
  case False
  then show ?thesis
    by (simp add: AddArgument_fresh(1))
qed

lemma AddArguments_nth:
  "i < length evs \<Longrightarrow>
     fst (AddArguments f evs) ! i =
       (if EventPtr_id (evs ! i) |\<in>| fmdom (event_args_m f)
           \<or> EventPtr_id (evs ! i) \<in> EventPtr_id ` set (take i evs)
        then duplicate (evs ! i) else Returns ())"
proof (induction evs arbitrary: f i)
  case Nil
  then show ?case by simp
next
  case (Cons ev evs)
  obtain r f' where step: "AddArgument f ev = (r, f')"
    by (cases "AddArgument f ev")
  obtain rs f'' where rest: "AddArguments f' evs = (rs, f'')"
    by (cases "AddArguments f' evs")
  show ?case
  proof (cases i)
    case 0
    have "r = fst (AddArgument f ev)"
      using step by simp
    also have "\<dots> = (if EventPtr_id ev |\<in>| fmdom (event_args_m f) then duplicate ev else Returns ())"
      by (subst AddArgument_unfold) simp
    finally show ?thesis
      using 0 step rest by simp
  next
    case (Suc j)
    with Cons.prems have j: "j < length evs"
      by simp
    have dom: "fmdom (event_args_m f') = finsert (EventPtr_id ev) (fmdom (event_args_m f))"
      using AddArgument_dom [of f ev] step by simp
    have "fst (AddArguments f (ev # evs)) ! i = fst (AddArguments f' evs) ! j"
      using Suc step rest by simp
    also have "\<dots> =
       (if EventPtr_id (evs ! j) |\<in>| fmdom (event_args_m f')
           \<or> EventPtr_id (evs ! j) \<in> EventPtr_id ` set (take j evs)
        then duplicate (evs ! j) else Returns ())"
      by (rule Cons.IH [OF j])
    finally show ?thesis
      using Suc dom by auto
  qed
qed

lemma AddArgument_inv:
  assumes "Formula_inv f"
  shows "Formula_inv (snd (AddArgument f ev))"
proof (cases "EventPtr_id ev |\<in>| fmdom (event_args_m f)")
  case True
  then have "snd (AddArgument f ev) = f"
    by (subst AddArgument_unfold) simp
  with assms show ?thesis by simp
next
  case False
  with assms have "EventPtr_id ev \<notin> set (arg_ids f)"
    by (simp add: Formula_inv_def)
  with assms False show ?thesis
    unfolding Formula_inv_def
    by (simp add: AddArgument_fresh)
qed

text \<open>
  Claim C2. \<^verbatim>\<open>AddArgument\<close> with a house event, a basic event or a gate throws
  DuplicateArgumentError, naming the event, when the id of the event is a key of
  \<^verbatim>\<open>event_args_\<close>, and returns otherwise. In a sequence of calls on one formula a
  call throws exactly when its id was in the formula at the start or belongs to an
  event of an earlier call. The keys of the map are the ids of the events in the three
  sequences, an invariant that every call keeps, so that a call throws exactly when
  its id is the id of an event of one of the sequences.
\<close>

theorem add_argument_duplicate:
  "(EventPtr_id ev |\<in>| fmdom (event_args_m f) \<longrightarrow>
      AddArgument f ev =
        (Throws (throw DuplicateArgumentError (''Duplicate argument '' @ EventPtr_name ev)), f))
   \<and> (EventPtr_id ev |\<notin>| fmdom (event_args_m f) \<longrightarrow> fst (AddArgument f ev) = Returns ())
   \<and> (i < length evs \<longrightarrow>
        fst (AddArguments f evs) ! i =
          (if EventPtr_id (evs ! i) |\<in>| fmdom (event_args_m f)
              \<or> EventPtr_id (evs ! i) \<in> EventPtr_id ` set (take i evs)
           then Throws (throw DuplicateArgumentError
                          (''Duplicate argument '' @ EventPtr_name (evs ! i)))
           else Returns ()))
   \<and> (Formula_inv f \<longrightarrow>
        Formula_inv (snd (AddArgument f ev))
        \<and> (thrown_class (fst (AddArgument f ev)) = Some DuplicateArgumentError
             \<longleftrightarrow> EventPtr_id ev \<in> set (arg_ids f))
        \<and> (fst (AddArgument f ev) = Returns () \<longleftrightarrow> EventPtr_id ev \<notin> set (arg_ids f)))"
proof -
  have one: "AddArgument f ev =
     (if EventPtr_id ev |\<in>| fmdom (event_args_m f) then (duplicate ev, f)
      else (Returns (), snd (AddArgument f ev)))"
    by (rule AddArgument_unfold)
  have thrown: "thrown_class (duplicate ev) = Some DuplicateArgumentError"
    and differ: "duplicate ev \<noteq> Returns ()"
    by (simp_all add: duplicate_def throw_def)
  have a: "EventPtr_id ev |\<in>| fmdom (event_args_m f) \<longrightarrow>
      AddArgument f ev =
        (Throws (throw DuplicateArgumentError (''Duplicate argument '' @ EventPtr_name ev)), f)"
    by (subst one) (simp add: duplicate_def)
  have b: "EventPtr_id ev |\<notin>| fmdom (event_args_m f) \<longrightarrow> fst (AddArgument f ev) = Returns ()"
    by (subst one) simp
  have c: "i < length evs \<longrightarrow>
        fst (AddArguments f evs) ! i =
          (if EventPtr_id (evs ! i) |\<in>| fmdom (event_args_m f)
              \<or> EventPtr_id (evs ! i) \<in> EventPtr_id ` set (take i evs)
           then Throws (throw DuplicateArgumentError
                          (''Duplicate argument '' @ EventPtr_name (evs ! i)))
           else Returns ())"
    using AddArguments_nth [of i evs f] by (simp add: duplicate_def)
  have d: "Formula_inv (snd (AddArgument f ev))
        \<and> (thrown_class (fst (AddArgument f ev)) = Some DuplicateArgumentError
             \<longleftrightarrow> EventPtr_id ev \<in> set (arg_ids f))
        \<and> (fst (AddArgument f ev) = Returns () \<longleftrightarrow> EventPtr_id ev \<notin> set (arg_ids f))"
    if inv: "Formula_inv f"
  proof -
    from inv have mem: "EventPtr_id ev |\<in>| fmdom (event_args_m f) \<longleftrightarrow> EventPtr_id ev \<in> set (arg_ids f)"
      by (simp add: Formula_inv_def)
    have "fst (AddArgument f ev) =
        (if EventPtr_id ev \<in> set (arg_ids f) then duplicate ev else Returns ())"
      by (subst one) (simp add: mem)
    with thrown differ AddArgument_inv [OF inv] show ?thesis
      by simp
  qed
  from a b c d show ?thesis by blast
qed

theorem add_argument_duplicate_witness:
  "fst (AddArgument or_formula (PtrBasicEvent pump)) = Returns ()
   \<and> AddArgument (snd (AddArgument or_formula (PtrBasicEvent pump))) (PtrHouseEvent pump_switch)
       = (Throws (throw DuplicateArgumentError ''Duplicate argument PUMP''),
          snd (AddArgument or_formula (PtrBasicEvent pump)))
   \<and> fst (AddArguments or_formula [PtrBasicEvent pump, PtrBasicEvent valve, PtrGate pump_ccf,
            PtrHouseEvent pump_switch])
       = [Returns (), Returns (), Returns (),
          Throws (throw DuplicateArgumentError ''Duplicate argument PUMP'')]"
proof -
  let ?f1 = "snd (AddArgument or_formula (PtrBasicEvent pump))"
  have ids: "EventPtr_id (PtrBasicEvent pump) = ''pump''"
    "EventPtr_id (PtrHouseEvent pump_switch :: unit EventPtr) = ''pump''"
    "EventPtr_name (PtrHouseEvent pump_switch :: unit EventPtr) = ''PUMP''"
    "EventPtr_id (PtrBasicEvent valve) = ''valve''"
    "EventPtr_id (PtrGate pump_ccf) = ''pumpccf''"
    by (simp_all add: pump_def pump_switch_def valve_def pump_ccf_def BasicEvent_ctor_def
        HouseEvent_ctor_def Gate_ctor_def Event_ctor_def Let_def to_lower_def to_lower_char_def)
  have empty: "fmdom (event_args_m or_formula) = {||}"
    by (simp add: or_formula_def)
  have first: "fst (AddArgument or_formula (PtrBasicEvent pump)) = Returns ()"
    using add_argument_duplicate [of "PtrBasicEvent pump" or_formula] ids empty by simp
  have dom1: "fmdom (event_args_m ?f1) = {|''pump''|}"
    using AddArgument_dom [of or_formula "PtrBasicEvent pump"] ids empty by simp
  have second: "AddArgument ?f1 (PtrHouseEvent pump_switch)
       = (Throws (throw DuplicateArgumentError ''Duplicate argument PUMP''), ?f1)"
    using add_argument_duplicate [of "PtrHouseEvent pump_switch" ?f1] ids dom1 by simp
  let ?evs = "[PtrBasicEvent pump, PtrBasicEvent valve, PtrGate pump_ccf,
            PtrHouseEvent pump_switch]"
  have len: "length (fst (AddArguments or_formula ?evs)) = 4"
    by (simp split: prod.splits)
  have "fst (AddArguments or_formula ?evs) ! 0 = Returns ()"
    "fst (AddArguments or_formula ?evs) ! 1 = Returns ()"
    "fst (AddArguments or_formula ?evs) ! 2 = Returns ()"
    "fst (AddArguments or_formula ?evs) ! 3
       = Throws (throw DuplicateArgumentError ''Duplicate argument PUMP'')"
    using add_argument_duplicate [of _ or_formula 0 ?evs]
      add_argument_duplicate [of _ or_formula 1 ?evs]
      add_argument_duplicate [of _ or_formula 2 ?evs]
      add_argument_duplicate [of _ or_formula 3 ?evs] ids empty
    by (simp_all add: numeral_3_eq_3)
  with len have third: "fst (AddArguments or_formula ?evs)
       = [Returns (), Returns (), Returns (),
          Throws (throw DuplicateArgumentError ''Duplicate argument PUMP'')]"
    by (simp add: list_eq_iff_nth_eq nth_Cons' numeral_3_eq_3 less_Suc_eq eval_nat_numeral) 
  from first second third show ?thesis by blast
qed

text \<open>
  Claim C9. When \<^verbatim>\<open>AddArgument\<close> throws, the formula is unchanged: the map, the
  three sequences and \<^verbatim>\<open>num_args()\<close>. When it returns, the number of arguments
  has grown by one: \<^verbatim>\<open>num_args()\<close> is one more, as an \<^verbatim>\<open>int\<close> that wraps
  around, and as a number when the count stays below the largest \<^verbatim>\<open>int\<close>. The
  call does one or the other.
\<close>

theorem add_argument_atomic:
  "(AddArgument f ev = (Throws e, f') \<longrightarrow>
      f' = f \<and> event_args_m f' = event_args_m f
      \<and> house_event_args_m f' = house_event_args_m f
      \<and> basic_event_args_m f' = basic_event_args_m f
      \<and> gate_args_m f' = gate_args_m f
      \<and> num_args f' = num_args f)
   \<and> (AddArgument f ev = (Returns (), f') \<longrightarrow>
        num_args f' = num_args f + 1
        \<and> fcard (fmdom (event_args_m f')) + length (formula_args_m f')
            = Suc (fcard (fmdom (event_args_m f)) + length (formula_args_m f))
        \<and> (fcard (fmdom (event_args_m f)) + length (formula_args_m f) < 2 ^ 31 - 1 \<longrightarrow>
             sint (num_args f') = sint (num_args f) + 1))
   \<and> (\<exists>f'. AddArgument f ev = (Returns (), f')
            \<or> AddArgument f ev
                = (Throws (throw DuplicateArgumentError
                     (''Duplicate argument '' @ EventPtr_name ev)), f'))"
proof -
  let ?n = "fcard (fmdom (event_args_m f)) + length (formula_args_m f)"
  have one: "AddArgument f ev =
     (if EventPtr_id ev |\<in>| fmdom (event_args_m f) then (duplicate ev, f)
      else (Returns (), snd (AddArgument f ev)))"
    by (rule AddArgument_unfold)
  have differ: "duplicate ev \<noteq> Returns ()"
    by (simp add: duplicate_def)
  have a: "f' = f" if "AddArgument f ev = (Throws e, f')"
    using that by (subst (asm) one) (simp split: if_splits)
  have b: "num_args f' = num_args f + 1
        \<and> fcard (fmdom (event_args_m f')) + length (formula_args_m f') = Suc ?n
        \<and> (?n < 2 ^ 31 - 1 \<longrightarrow> sint (num_args f') = sint (num_args f) + 1)"
    if ok: "AddArgument f ev = (Returns (), f')"
  proof -
    from ok differ have fresh: "EventPtr_id ev |\<notin>| fmdom (event_args_m f)"
      by (subst (asm) one) (simp split: if_splits)
    from ok have f': "f' = snd (AddArgument f ev)"
      by simp
    have count: "fcard (fmdom (event_args_m f')) + length (formula_args_m f') = Suc ?n"
      unfolding f' using fresh
      by (simp add: AddArgument_fresh(1,2) fcard_finsert_disjoint)
    then have word: "num_args f' = num_args f + 1"
      by (simp add: num_args_count)
    have "sint (num_args f') = sint (num_args f) + 1" if small: "?n < 2 ^ 31 - 1"
    proof -
      from small have "?n < 2 ^ 31" and "Suc ?n < 2 ^ 31"
        by simp_all
      then have "sint (num_args f) = int ?n" and "sint (num_args f') = int (Suc ?n)"
        unfolding num_args_count count by (simp_all only: sint_word_of_nat)
      then show ?thesis by simp
    qed
    with count word show ?thesis by blast
  qed
  have c: "\<exists>f'. AddArgument f ev = (Returns (), f')
            \<or> AddArgument f ev
                = (Throws (throw DuplicateArgumentError
                     (''Duplicate argument '' @ EventPtr_name ev)), f')"
    by (subst one, subst one) (simp add: duplicate_def)
  from a b c show ?thesis by blast
qed

theorem add_argument_atomic_witness:
  "num_args or_formula = 0
   \<and> num_args (snd (AddArgument or_formula (PtrBasicEvent pump))) = 1
   \<and> sint (num_args (snd (AddArgument or_formula (PtrBasicEvent pump)))) = 1
   \<and> AddArgument (snd (AddArgument or_formula (PtrBasicEvent pump))) (PtrBasicEvent pump)
       = (Throws (throw DuplicateArgumentError ''Duplicate argument Pump''),
          snd (AddArgument or_formula (PtrBasicEvent pump)))"
proof -
  have name: "duplicate (PtrBasicEvent pump)
      = Throws (throw DuplicateArgumentError ''Duplicate argument Pump'')"
    by (simp add: duplicate_def pump_def BasicEvent_ctor_def Event_ctor_def Let_def)
  have empty: "fmdom (event_args_m or_formula) = {||}" "formula_args_m or_formula = []"
    by (simp_all add: or_formula_def)
  have zero: "num_args or_formula = 0"
    by (simp add: num_args_count empty fcard_fempty)
  have "EventPtr_id (PtrBasicEvent pump) |\<notin>| fmdom (event_args_m or_formula)"
    by (simp add: empty)
  then have "fst (AddArgument or_formula (PtrBasicEvent pump)) = Returns ()"
    by (subst AddArgument_unfold) simp
  then obtain f1 where first: "AddArgument or_formula (PtrBasicEvent pump) = (Returns (), f1)"
    by (cases "AddArgument or_formula (PtrBasicEvent pump)") simp
  have small: "fcard (fmdom (event_args_m or_formula)) + length (formula_args_m or_formula)
                < 2 ^ 31 - 1"
    by (simp add: empty fcard_fempty)
  from add_argument_atomic [of or_formula "PtrBasicEvent pump" _ f1] first small
  have "num_args f1 = num_args or_formula + 1" "sint (num_args f1) = sint (num_args or_formula) + 1"
    by blast+
  then have one: "num_args f1 = 1" "sint (num_args f1) = 1"
    by (simp_all add: zero)
  have "fmdom (event_args_m f1) = finsert (EventPtr_id (PtrBasicEvent pump)) (fmdom (event_args_m or_formula))"
    using AddArgument_dom [of or_formula "PtrBasicEvent pump"] by (simp only: first snd_conv)
  then have "EventPtr_id (PtrBasicEvent pump) |\<in>| fmdom (event_args_m f1)"
    by simp
  then have "fst (AddArgument f1 (PtrBasicEvent pump)) = duplicate (PtrBasicEvent pump)"
    by (subst AddArgument_unfold) simp
  then obtain f2 where second: "AddArgument f1 (PtrBasicEvent pump)
       = (Throws (throw DuplicateArgumentError ''Duplicate argument Pump''), f2)"
    by (cases "AddArgument f1 (PtrBasicEvent pump)") (simp only: name fst_conv)
  with add_argument_atomic [of f1 "PtrBasicEvent pump" _ f2] have "f2 = f1"
    by blast
  with zero one second show ?thesis
    by (simp only: first snd_conv) 
qed

text \<open>
  Claim C3. \<^verbatim>\<open>Formula::Validate()\<close> throws ValidationError exactly when the
  number \<open>n\<close> of arguments breaks the rule of the operator: one argument for NULL and
  NOT, two or more for AND, OR, NAND, NOR and XOR, and for ATLEAST two or more with
  the vote number \<open>k\<close> such that \<open>2 \<le> k < n\<close>. It returns normally otherwise and
  leaves the formula as it was.
\<close>

theorem formula_validate_arity:
  assumes "n = fcard (fmdom (event_args_m f)) + length (formula_args_m f)"
    and "k = sint (vote_number_m f)"
  shows "(type_m f \<in> {''null'', ''not''} \<longrightarrow>
           (thrown_class (fst (Formula_Validate f)) = Some ValidationError \<longleftrightarrow> n \<noteq> 1))
     \<and> (type_m f \<in> {''and'', ''or'', ''nand'', ''nor'', ''xor''} \<longrightarrow>
           (thrown_class (fst (Formula_Validate f)) = Some ValidationError \<longleftrightarrow> \<not> 2 \<le> n))
     \<and> (type_m f = ''atleast'' \<longrightarrow>
           (thrown_class (fst (Formula_Validate f)) = Some ValidationError
             \<longleftrightarrow> \<not> (2 \<le> n \<and> 2 \<le> k \<and> k < int n)))
     \<and> (fst (Formula_Validate f) = Returns ()
          \<or> thrown_class (fst (Formula_Validate f)) = Some ValidationError)
     \<and> snd (Formula_Validate f) = f"
proof -
  have single: "thrown_class (fst (Formula_Validate f)) = Some ValidationError \<longleftrightarrow> n \<noteq> 1"
    if "type_m f \<in> {''null'', ''not''}"
    using that assms
    by (auto simp: Formula_Validate_def kSingle_m_def kTwoOrMore_m_def throw_def Let_def)
  have many: "thrown_class (fst (Formula_Validate f)) = Some ValidationError \<longleftrightarrow> \<not> 2 \<le> n"
    if "type_m f \<in> {''and'', ''or'', ''nand'', ''nor'', ''xor''}"
    using that assms
    by (auto simp: Formula_Validate_def kSingle_m_def kTwoOrMore_m_def throw_def Let_def)
  have vote: "thrown_class (fst (Formula_Validate f)) = Some ValidationError
             \<longleftrightarrow> \<not> (2 \<le> n \<and> 2 \<le> k \<and> k < int n)"
    if "type_m f = ''atleast''"
    using that assms
    by (auto simp: Formula_Validate_def kSingle_m_def kTwoOrMore_m_def throw_def Let_def)
  have total: "fst (Formula_Validate f) = Returns ()
          \<or> thrown_class (fst (Formula_Validate f)) = Some ValidationError"
    and frame: "snd (Formula_Validate f) = f"
    by (simp_all add: Formula_Validate_def throw_def Let_def)
  from single many vote total frame show ?thesis by blast
qed

theorem formula_validate_arity_witness:
  "thrown_class (fst (Formula_Validate or_formula)) = Some ValidationError
   \<and> fst (Formula_Validate (or_formula\<lparr>type_m := ''atleast'', vote_number_m := 2,
            formula_args_m := [(), (), ()]\<rparr>)) = Returns ()
   \<and> thrown_class (fst (Formula_Validate (or_formula\<lparr>type_m := ''atleast'', vote_number_m := 3,
            formula_args_m := [(), (), ()]\<rparr>))) = Some ValidationError
   \<and> fst (Formula_Validate (or_formula\<lparr>type_m := ''not'', formula_args_m := [()]\<rparr>))
       = Returns ()"
proof -
  have "thrown_class (fst (Formula_Validate or_formula)) = Some ValidationError"
    using formula_validate_arity [of 0 or_formula 0]
    by (simp add: or_formula_def)
  moreover have "fst (Formula_Validate (or_formula\<lparr>type_m := ''atleast'', vote_number_m := 2,
            formula_args_m := [(), (), ()]\<rparr>)) = Returns ()"
    using formula_validate_arity [of 3 "or_formula\<lparr>type_m := ''atleast'', vote_number_m := 2,
            formula_args_m := [(), (), ()]\<rparr>" 2]
    by (auto simp add: or_formula_def)
  moreover have "thrown_class (fst (Formula_Validate (or_formula\<lparr>type_m := ''atleast'',
            vote_number_m := 3, formula_args_m := [(), (), ()]\<rparr>))) = Some ValidationError"
    using formula_validate_arity [of 3 "or_formula\<lparr>type_m := ''atleast'', vote_number_m := 3,
            formula_args_m := [(), (), ()]\<rparr>" 3]
    by (simp add: or_formula_def)
  moreover have "fst (Formula_Validate (or_formula\<lparr>type_m := ''not'', formula_args_m := [()]\<rparr>))
       = Returns ()"
    using formula_validate_arity [of 1 "or_formula\<lparr>type_m := ''not'', formula_args_m := [()]\<rparr>" 0]
    by (auto simp add: or_formula_def)
  ultimately show ?thesis by blast
qed

end
